theory Spec2Isabelle
  imports Main "HOL-Library.Word"
begin

section \<open>Strings of the source language\<close>

text \<open>
  A TypeScript string is a sequence of UTF-16 code units. Literals of the source are
  written \<open>js ''...''\<close>; all of them are ASCII.
\<close>

type_synonym jschar = "16 word"
type_synonym jsstring = "jschar list"

definition js :: "string \<Rightarrow> jsstring" where
  "js = map of_char"

text \<open>
  \<^verbatim>\<open>String.prototype.trim\<close> strips white space and line terminators from both ends:
  TAB, LF, VT, FF, CR, SP, NBSP, U+1680, U+2000 to U+200A, U+2028, U+2029, U+202F, U+205F,
  U+3000 and the byte order mark U+FEFF.
\<close>

definition isWhiteSpace :: "jschar \<Rightarrow> bool" where
  "isWhiteSpace c \<longleftrightarrow>
     c \<in> set [0x9, 0xA, 0xB, 0xC, 0xD, 0x20, 0xA0, 0x1680, 0x2028, 0x2029, 0x202F, 0x205F,
              0x3000, 0xFEFF]
     \<or> (0x2000 \<le> c \<and> c \<le> 0x200A)"

definition trim :: "jsstring \<Rightarrow> jsstring" where
  "trim s = rev (dropWhile isWhiteSpace (rev (dropWhile isWhiteSpace s)))"

text \<open>
  \<^verbatim>\<open>Array.prototype.slice(start)\<close> with one argument: a negative start counts from the
  end and is clamped at the first element, a start beyond the end gives the empty array.
\<close>

definition slice :: "int \<Rightarrow> 'a list \<Rightarrow> 'a list" where
  "slice start xs =
     (let len = int (length xs);
          k = (if start < 0 then max (len + start) 0 else min start len)
      in drop (nat k) xs)"

text \<open>The decimal rendering of an array length inside a template literal.\<close>

fun numberToString :: "nat \<Rightarrow> jsstring" where
  "numberToString n =
     (if n < 10 then [of_nat (48 + n)]
      else numberToString (n div 10) @ [of_nat (48 + n mod 10)])"

declare numberToString.simps [simp del]

section \<open>Data model\<close>

text \<open>An uploaded \<^verbatim>\<open>File\<close> is opaque to the controller; it is identified by a handle.\<close>

datatype jsFile = File nat

text \<open>\<^verbatim>\<open>PatientData\<close> of \<^verbatim>\<open>types.ts\<close>: every text field is a string, also the age.\<close>

record patientData =
  age :: jsstring
  gender :: jsstring
  symptoms :: jsstring
  history :: jsstring
  images :: "jsFile list"

datatype stage = Vision | Registry | Retrieval | Synthesis

text \<open>The object held by the \<^verbatim>\<open>processingStage\<close> state variable.\<close>

record processingStage =
  step :: stage
  label :: jsstring
  progress :: int
  log :: "jsstring list"

datatype uiStep = Input | Analyzing | Results

text \<open>
  A value caught by \<^verbatim>\<open>catch (err)\<close>: an \<^verbatim>\<open>Error\<close> object with its message, or any
  other thrown value.
\<close>

datatype thrown = ErrorObject jsstring | OtherValue

text \<open>
  The state variables of the component that \<^verbatim>\<open>runAnalysis\<close> reads or writes. The entries
  of \<^verbatim>\<open>systemHealth\<close> (\<^verbatim>\<open>any[]\<close>), the case studies and the analysis result are passed
  through untouched, so their types are parameters \<open>'h\<close>, \<open>'c\<close> and \<open>'r\<close>.
\<close>

record ('h, 'r) app =
  appStep :: uiStep
  patientData :: patientData
  analysisResult :: "'r option"
  error :: "jsstring option"
  systemHealth :: "'h list"
  processingStage :: processingStage

text \<open>The values given to \<^verbatim>\<open>useState\<close> when the component mounts.\<close>

definition initialApp :: "('h, 'r) app" where
  "initialApp =
     \<lparr> appStep = Input,
       patientData = \<lparr> age = js '''', gender = js ''Female'', symptoms = js '''',
                       history = js '''', images = [] \<rparr>,
       analysisResult = None,
       error = None,
       systemHealth = [],
       processingStage = \<lparr> step = Vision, label = js ''Initializing...'', progress = 0,
                           log = [] \<rparr> \<rparr>"

section \<open>External collaborators\<close>

text \<open>
  The four services are imported from modules outside the controller. Each awaited call
  settles either with a value (\<open>Inr\<close>) or by throwing (\<open>Inl\<close>); the environment records
  how each call settles.
\<close>

record ('h, 'c, 'r) env =
  identifyAnatomyFromImage :: "jsFile \<Rightarrow> thrown + jsstring"
  getRegistryHealth :: "thrown + 'h list"
  retrieveSimilarCases :: "jsstring \<Rightarrow> thrown + 'c list"
  analyzePatientCase :: "patientData \<Rightarrow> 'c list \<Rightarrow> thrown + 'r"

section \<open>Effects of the controller\<close>

text \<open>
  Every statement of \<^verbatim>\<open>runAnalysis\<close> with an effect is one entry of the list the model
  returns, in program order: the state setters, the console, the timer and the calls of
  the collaborators with their arguments.
\<close>

datatype ('h, 'c, 'r) effect =
    SetStep uiStep
  | SetError "jsstring option"
  | SetSystemHealth "'h list"
  | SetProcessingStage "processingStage \<Rightarrow> processingStage"
  | SetAnalysisResult "'r option"
  | ConsoleError jsstring thrown
  | Delay nat
  | CallIdentifyAnatomyFromImage jsFile
  | CallGetRegistryHealth
  | CallRetrieveSimilarCases jsstring
  | CallAnalyzePatientCase patientData "'c list"

text \<open>
  \<^verbatim>\<open>addLog\<close>: keep the last three entries of the previous log and append the message.
\<close>

definition addLog :: "jsstring \<Rightarrow> ('h, 'c, 'r) effect" where
  "addLog msg = SetProcessingStage (\<lambda>prev. prev\<lparr>log := slice (- 3) (log prev) @ [msg]\<rparr>)"

fun applyEffect :: "('h, 'c, 'r) effect \<Rightarrow> ('h, 'r) app \<Rightarrow> ('h, 'r) app" where
  "applyEffect (SetStep v) s = s\<lparr>appStep := v\<rparr>"
| "applyEffect (SetError v) s = s\<lparr>error := v\<rparr>"
| "applyEffect (SetSystemHealth v) s = s\<lparr>systemHealth := v\<rparr>"
| "applyEffect (SetProcessingStage f) s = s\<lparr>processingStage := f (processingStage s)\<rparr>"
| "applyEffect (SetAnalysisResult v) s = s\<lparr>analysisResult := v\<rparr>"
| "applyEffect (ConsoleError m e) s = s"
| "applyEffect (Delay ms) s = s"
| "applyEffect (CallIdentifyAnatomyFromImage f) s = s"
| "applyEffect CallGetRegistryHealth s = s"
| "applyEffect (CallRetrieveSimilarCases q) s = s"
| "applyEffect (CallAnalyzePatientCase p cs) s = s"

fun exec :: "('h, 'c, 'r) effect list \<Rightarrow> ('h, 'r) app \<Rightarrow> ('h, 'r) app" where
  "exec [] s = s"
| "exec (e # es) s = exec es (applyEffect e s)"

text \<open>The states an observer can see: the one before the run and the one after each effect.\<close>

fun observations :: "('h, 'c, 'r) effect list \<Rightarrow> ('h, 'r) app \<Rightarrow> ('h, 'r) app list" where
  "observations [] s = [s]"
| "observations (e # es) s = s # observations es (applyEffect e s)"

text \<open>The values written to \<^verbatim>\<open>processingStage\<close>, one for each call of its setter.\<close>

fun stageWrites :: "('h, 'c, 'r) effect list \<Rightarrow> processingStage \<Rightarrow> processingStage list" where
  "stageWrites [] p = []"
| "stageWrites (SetProcessingStage f # es) p = f p # stageWrites es (f p)"
| "stageWrites (e # es) p = stageWrites es p"

fun retrievalQueries :: "('h, 'c, 'r) effect list \<Rightarrow> jsstring list" where
  "retrievalQueries [] = []"
| "retrievalQueries (CallRetrieveSimilarCases q # es) = q # retrievalQueries es"
| "retrievalQueries (e # es) = retrievalQueries es"

text \<open>The collaborators invoked, in order of invocation.\<close>

datatype service = AnatomyClassifier | RegistryProbe | Retriever | Synthesizer

fun calls :: "('h, 'c, 'r) effect list \<Rightarrow> service list" where
  "calls [] = []"
| "calls (CallIdentifyAnatomyFromImage f # es) = AnatomyClassifier # calls es"
| "calls (CallGetRegistryHealth # es) = RegistryProbe # calls es"
| "calls (CallRetrieveSimilarCases q # es) = Retriever # calls es"
| "calls (CallAnalyzePatientCase p cs # es) = Synthesizer # calls es"
| "calls (e # es) = calls es"

text \<open>
  The effects up to and including the first call of a collaborator: what the run has done
  when that call settles.
\<close>

fun untilCall :: "service \<Rightarrow> ('h, 'c, 'r) effect list \<Rightarrow> ('h, 'c, 'r) effect list" where
  "untilCall c [] = []"
| "untilCall c (e # es) = (if calls [e] = [c] then [e] else e # untilCall c es)"

text \<open>The stage and the percent of every value written to the progress state.\<close>

definition marks :: "('h, 'c, 'r) effect list \<Rightarrow> processingStage \<Rightarrow> (stage \<times> int) list" where
  "marks es p = map (\<lambda>q. (step q, progress q)) (stageWrites es p)"

text \<open>What the user is shown in the end: the view, the error and the result.\<close>

definition verdict :: "('h, 'r) app \<Rightarrow> uiStep \<times> jsstring option \<times> 'r option" where
  "verdict s = (appStep s, error s, analysisResult s)"

section \<open>The controller\<close>

definition hasSymptoms :: "patientData \<Rightarrow> bool" where
  "hasSymptoms pd \<longleftrightarrow> symptoms pd \<noteq> [] \<and> length (trim (symptoms pd)) > 0"

definition hasImages :: "patientData \<Rightarrow> bool" where
  "hasImages pd \<longleftrightarrow> length (images pd) > 0"

text \<open>The message stored by the \<^verbatim>\<open>catch\<close> block, followed by the return to the form.\<close>

definition errorMessage :: "thrown \<Rightarrow> jsstring" where
  "errorMessage err =
     (case err of ErrorObject m \<Rightarrow> m | OtherValue \<Rightarrow> js ''An unexpected error occurred'')"

definition catchBlock :: "thrown \<Rightarrow> ('h, 'c, 'r) effect list" where
  "catchBlock err = [SetError (Some (errorMessage err)), SetStep Input]"

text \<open>
  Step 1 of the \<^verbatim>\<open>try\<close> block. The inner \<^verbatim>\<open>try\<close> swallows what the classifier throws,
  so the stage always yields an anatomy context, empty unless the classifier returned one.
\<close>

definition identifyAnatomy ::
  "('h, 'c, 'r) env \<Rightarrow> patientData \<Rightarrow> ('h, 'c, 'r) effect list \<times> jsstring" where
  "identifyAnatomy env pd =
     (if hasImages pd then
        (case identifyAnatomyFromImage env (images pd ! 0) of
           Inr anatomyContext \<Rightarrow>
             ([SetProcessingStage (\<lambda>prev. prev\<lparr>step := Vision,
                  label := js ''Analyzing Visual Structures'', progress := 15\<rparr>),
               addLog (js ''> ResNet-50: Loading weights...''),
               CallIdentifyAnatomyFromImage (images pd ! 0),
               addLog (js ''> Anatomy Identified: '' @ anatomyContext),
               SetProcessingStage (\<lambda>prev. prev\<lparr>progress := 30\<rparr>)],
              anatomyContext)
         | Inl e \<Rightarrow>
             ([SetProcessingStage (\<lambda>prev. prev\<lparr>step := Vision,
                  label := js ''Analyzing Visual Structures'', progress := 15\<rparr>),
               addLog (js ''> ResNet-50: Loading weights...''),
               CallIdentifyAnatomyFromImage (images pd ! 0),
               ConsoleError (js ''Could not identify anatomy'') e],
              []))
      else
        ([SetProcessingStage (\<lambda>prev. prev\<lparr>step := Vision,
             label := js ''Skipping Vision Layer'', progress := 30\<rparr>),
          addLog (js ''> No image data provided. Bypassing vision stack.''),
          Delay 800],
         []))"

text \<open>Step 3: the query handed to the retrieval service.\<close>

definition constructQuery :: "jsstring \<Rightarrow> jsstring \<Rightarrow> jsstring" where
  "constructQuery symptomText anatomyContext =
     (let query = symptomText in
      if anatomyContext \<noteq> [] then
        js ''[PATIENT IMAGING ANATOMY: '' @ anatomyContext @ js ''] '' @ query
      else if trim query = [] then js ''visual anomaly suspected malignancy''
      else query)"

text \<open>
  Step 5 and the end of the \<^verbatim>\<open>try\<close> block: the synthesizer is awaited; what it throws
  goes to the \<^verbatim>\<open>catch\<close> block, what it returns is stored and shown.
\<close>

definition fromSynthesis ::
  "('h, 'c, 'r) env \<Rightarrow> patientData \<Rightarrow> 'c list \<Rightarrow> ('h, 'c, 'r) effect list" where
  "fromSynthesis env pd similarCases =
     [SetProcessingStage (\<lambda>prev. prev\<lparr>step := Synthesis,
         label := js ''Generating Clinical Synthesis'', progress := 85\<rparr>),
      addLog (js ''> Gemini 3 Pro: Reasoning context window active...''),
      CallAnalyzePatientCase pd similarCases] @
     (case analyzePatientCase env pd similarCases of
        Inl err \<Rightarrow> catchBlock err
      | Inr result \<Rightarrow>
          [SetProcessingStage (\<lambda>prev. prev\<lparr>label := js ''Finalizing Report'',
              progress := 100\<rparr>),
           addLog (js ''> Output generated successfully.''),
           Delay 800,
           SetAnalysisResult (Some result),
           SetStep Results])"

text \<open>Steps 3 and 4, followed by the rest of the block.\<close>

definition fromRetrieval ::
  "('h, 'c, 'r) env \<Rightarrow> patientData \<Rightarrow> jsstring \<Rightarrow> ('h, 'c, 'r) effect list" where
  "fromRetrieval env pd anatomyContext =
     (let query = constructQuery (symptoms pd) anatomyContext in
      [SetProcessingStage (\<lambda>prev. prev\<lparr>step := Retrieval,
          label := js ''Traversing Vector Space'', progress := 60\<rparr>),
       addLog (js ''> Querying dense vector embeddings...''),
       CallRetrieveSimilarCases query] @
      (case retrieveSimilarCases env query of
         Inl err \<Rightarrow> catchBlock err
       | Inr similarCases \<Rightarrow>
           [SetProcessingStage (\<lambda>prev. prev\<lparr>progress := 75\<rparr>),
            addLog (js ''> Retrieval complete: '' @ numberToString (length similarCases)
                    @ js '' candidates found.'')] @
           fromSynthesis env pd similarCases))"

text \<open>Step 2, followed by the rest of the block.\<close>

definition fromRegistry ::
  "('h, 'c, 'r) env \<Rightarrow> patientData \<Rightarrow> jsstring \<Rightarrow> ('h, 'c, 'r) effect list" where
  "fromRegistry env pd anatomyContext =
     [SetProcessingStage (\<lambda>prev. prev\<lparr>step := Registry,
         label := js ''Connecting to Research Nodes'', progress := 45\<rparr>),
      addLog (js ''> Handshake: NIH / TCIA / ISIC ...''),
      CallGetRegistryHealth] @
     (case getRegistryHealth env of
        Inl err \<Rightarrow> catchBlock err
      | Inr health \<Rightarrow>
          [SetSystemHealth health,
           addLog (js ''> Connection established: 12 Nodes Online'')] @
          fromRetrieval env pd anatomyContext)"

definition tryBlock :: "('h, 'c, 'r) env \<Rightarrow> patientData \<Rightarrow> ('h, 'c, 'r) effect list" where
  "tryBlock env pd =
     (let (vision, anatomyContext) = identifyAnatomy env pd in
      vision @ fromRegistry env pd anatomyContext)"

definition runAnalysis :: "('h, 'c, 'r) env \<Rightarrow> patientData \<Rightarrow> ('h, 'c, 'r) effect list" where
  "runAnalysis env pd =
     (if age pd = [] then [SetError (Some (js ''Please provide patient age.''))]
      else if \<not> hasSymptoms pd \<and> \<not> hasImages pd then
        [SetError (Some (js
           ''Please provide either clinical symptoms OR upload diagnostic imagery.''))]
      else
        [SetStep Analyzing,
         SetError None,
         SetSystemHealth [],
         SetProcessingStage (\<lambda>prev. \<lparr>step = Vision, label = js ''Booting Neural Engines...'',
            progress = 5, log = [js ''> System init sequence started...'']\<rparr>)]
        @ tryBlock env pd)"

text \<open>One click on the button: the run reads the query held in the state it starts from.\<close>

definition run :: "('h, 'c, 'r) env \<Rightarrow> ('h, 'r) app \<Rightarrow> ('h, 'r) app" where
  "run env s = exec (runAnalysis env (patientData s)) s"

section \<open>Scenarios\<close>

text \<open>
  Concrete queries and collaborator behaviours used to evaluate the controller. The
  collaborators' payloads are opaque to the controller; numbers stand in for them.
\<close>

definition queryA :: patientData where
  "queryA = \<lparr> age = js ''55'', gender = js ''Female'', symptoms = js ''irregular mole'',
              history = js '''', images = [] \<rparr>"

definition queryB :: patientData where
  "queryB = \<lparr> age = js ''40'', gender = js ''Male'', symptoms = js '''',
              history = js '''', images = [File 0] \<rparr>"

definition envLung :: "(nat, nat, nat) env" where
  "envLung = \<lparr> identifyAnatomyFromImage = (\<lambda>f. Inr (js ''Lung'')),
               getRegistryHealth = Inr [12],
               retrieveSimilarCases = (\<lambda>q. Inr [1, 2, 3]),
               analyzePatientCase = (\<lambda>p cs. Inr 7) \<rparr>"

definition envRegistryDown :: "(nat, nat, nat) env" where
  "envRegistryDown =
     envLung \<lparr> getRegistryHealth := Inl (ErrorObject (js ''registry unavailable'')) \<rparr>"

definition envClassifierFails :: "(nat, nat, nat) env" where
  "envClassifierFails =
     envLung \<lparr> identifyAnatomyFromImage :=
                 (\<lambda>f. Inl (ErrorObject (js ''classification failed''))) \<rparr>"

definition startWith :: "patientData \<Rightarrow> (nat, nat) app" where
  "startWith pd = initialApp \<lparr> patientData := pd \<rparr>"

definition envRetrievalFails :: "(nat, nat, nat) env" where
  "envRetrievalFails =
     envLung \<lparr> retrieveSimilarCases := (\<lambda>q. Inl (ErrorObject (js ''registry is empty''))) \<rparr>"

definition envSynthesisFails :: "(nat, nat, nat) env" where
  "envSynthesisFails = envLung \<lparr> analyzePatientCase := (\<lambda>p cs. Inl OtherValue) \<rparr>"

section \<open>Auxiliary facts\<close>

lemmas controller_defs =
  runAnalysis_def tryBlock_def identifyAnatomy_def fromRegistry_def fromRetrieval_def
  fromSynthesis_def catchBlock_def addLog_def Let_def

lemmas scenario_defs =
  queryA_def queryB_def envLung_def envRegistryDown_def envClassifierFails_def
  envRetrievalFails_def envSynthesisFails_def startWith_def
  initialApp_def hasSymptoms_def hasImages_def constructQuery_def trim_def isWhiteSpace_def
  js_def run_def errorMessage_def

subsection \<open>Array slices\<close>

lemma length_slice_last3: "length (slice (- 3) xs) \<le> 3"
  by (simp add: slice_def Let_def)

lemma slice_last3_within: "length xs \<le> 3 \<Longrightarrow> slice (- 3) xs = xs"
  by (simp add: slice_def Let_def)

lemma slice_last3_full: "length xs = 4 \<Longrightarrow> slice (- 3) xs = tl xs"
  by (simp add: slice_def Let_def drop_Suc)

subsection \<open>Running a list of effects\<close>

lemma processingStage_exec:
  "processingStage (exec es s) = last (processingStage s # stageWrites es (processingStage s))"
proof (induction es arbitrary: s)
  case Nil
  show ?case by simp
next
  case (Cons e es)
  show ?case by (cases e) (simp_all add: Cons.IH)
qed


lemma exec_in_observations: "exec es s \<in> set (observations es s)"
  by (induction es arbitrary: s) simp_all

lemma observations_invariant:
  assumes "\<And>e t. e \<in> set es \<Longrightarrow> P (processingStage t)
             \<Longrightarrow> P (processingStage (applyEffect e t))"
    and "P (processingStage s)"
  shows "\<forall>s' \<in> set (observations es s). P (processingStage s')"
  using assms
proof (induction es arbitrary: s)
  case Nil
  then show ?case by simp
next
  case (Cons e es)
  have step: "P (processingStage (applyEffect e s))"
    using Cons.prems by simp
  have "\<forall>s' \<in> set (observations es (applyEffect e s)). P (processingStage s')"
    by (rule Cons.IH) (use Cons.prems(1) step in auto)
  with Cons.prems(2) show ?case by simp
qed


lemma calls_append: "calls (xs @ ys) = calls xs @ calls ys"
  by (induction xs rule: calls.induct) simp_all

lemma retrievalQueries_append:
  "retrievalQueries (xs @ ys) = retrievalQueries xs @ retrievalQueries ys"
  by (induction xs rule: retrievalQueries.induct) simp_all

lemma calls_addLog [simp]: "calls (addLog m # es) = calls es"
  by (simp add: addLog_def)

lemma retrievalQueries_addLog [simp]: "retrievalQueries (addLog m # es) = retrievalQueries es"
  by (simp add: addLog_def)

lemma calls_catchBlock [simp]: "calls (catchBlock err) = []"
  by (simp add: catchBlock_def)

lemma retrievalQueries_catchBlock [simp]: "retrievalQueries (catchBlock err) = []"
  by (simp add: catchBlock_def)

subsection \<open>Stage and percent of the writes\<close>

lemma marks_Nil [simp]: "marks [] p = []"
  by (simp add: marks_def)

lemma marks_write [simp]:
  "marks (SetProcessingStage f # es) p = (step (f p), progress (f p)) # marks es (f p)"
  by (simp add: marks_def)

lemma marks_addLog [simp]:
  "marks (addLog m # es) p
     = (step p, progress p) # marks es (p\<lparr>log := slice (- 3) (log p) @ [m]\<rparr>)"
  by (simp add: marks_def addLog_def)

lemma marks_other [simp]:
  "marks (SetStep v # es) p = marks es p"
  "marks (SetError w # es) p = marks es p"
  "marks (SetSystemHealth hs # es) p = marks es p"
  "marks (SetAnalysisResult r # es) p = marks es p"
  "marks (ConsoleError m e # es) p = marks es p"
  "marks (Delay n # es) p = marks es p"
  "marks (CallIdentifyAnatomyFromImage f # es) p = marks es p"
  "marks (CallGetRegistryHealth # es) p = marks es p"
  "marks (CallRetrieveSimilarCases q # es) p = marks es p"
  "marks (CallAnalyzePatientCase pd cs # es) p = marks es p"
  by (simp_all add: marks_def)

lemma marks_catchBlock [simp]: "marks (catchBlock err) p = []"
  by (simp add: catchBlock_def)

lemma last_mark_exec:
  "(step (processingStage (exec es s)), progress (processingStage (exec es s)))
     = last ((step (processingStage s), progress (processingStage s))
             # marks es (processingStage s))"
proof -
  let ?g = "\<lambda>q. (step q, progress q)"
  let ?ws = "processingStage s # stageWrites es (processingStage s)"
  have "last (map ?g ?ws) = ?g (last ?ws)"
    by (rule last_map) simp
  then show ?thesis
    by (simp add: processingStage_exec marks_def)
qed

lemma marks_fromSynthesis:
  "marks (fromSynthesis env pd cs) p
     = (Synthesis, 85) # (Synthesis, 85)
       # (case analyzePatientCase env pd cs of
            Inl err \<Rightarrow> []
          | Inr r \<Rightarrow> [(Synthesis, 100), (Synthesis, 100)])"
  by (simp add: fromSynthesis_def split: sum.splits)

lemma marks_fromRetrieval:
  "marks (fromRetrieval env pd ctx) p
     = (Retrieval, 60) # (Retrieval, 60)
       # (case retrieveSimilarCases env (constructQuery (symptoms pd) ctx) of
            Inl err \<Rightarrow> []
          | Inr cs \<Rightarrow> (Retrieval, 75) # (Retrieval, 75) # marks (fromSynthesis env pd cs) p)"
  by (simp add: fromRetrieval_def Let_def marks_fromSynthesis split: sum.splits)

lemma marks_fromRegistry:
  "marks (fromRegistry env pd ctx) p
     = (Registry, 45) # (Registry, 45)
       # (case getRegistryHealth env of
            Inl err \<Rightarrow> []
          | Inr h \<Rightarrow> (Registry, 45) # marks (fromRetrieval env pd ctx) p)"
  by (simp add: fromRegistry_def marks_fromRetrieval marks_fromSynthesis split: sum.splits)

lemma marks_tryBlock:
  "marks (tryBlock env pd) p
     = (if hasImages pd then
          (Vision, 15) # (Vision, 15)
          # (case identifyAnatomyFromImage env (images pd ! 0) of
               Inl e \<Rightarrow> []
             | Inr a \<Rightarrow> [(Vision, 15), (Vision, 30)])
        else [(Vision, 30), (Vision, 30)])
       @ marks (fromRegistry env pd (snd (identifyAnatomy env pd))) p"
  by (simp add: tryBlock_def identifyAnatomy_def marks_fromRegistry marks_fromRetrieval
        marks_fromSynthesis split: sum.splits)

lemma marks_runAnalysis:
  "marks (runAnalysis env pd) p
     = (if age pd = [] \<or> (\<not> hasSymptoms pd \<and> \<not> hasImages pd) then []
        else (Vision, 5) # marks (tryBlock env pd) p)"
  by (simp add: runAnalysis_def marks_tryBlock marks_fromRegistry marks_fromRetrieval
        marks_fromSynthesis split: sum.splits)

lemmas marks_run =
  marks_runAnalysis marks_tryBlock marks_fromRegistry marks_fromRetrieval marks_fromSynthesis

subsection \<open>Collaborators called\<close>

lemma calls_fromSynthesis: "calls (fromSynthesis env pd cs) = [Synthesizer]"
  by (simp add: fromSynthesis_def split: sum.splits)

lemma calls_fromRetrieval:
  "calls (fromRetrieval env pd ctx)
     = Retriever # (case retrieveSimilarCases env (constructQuery (symptoms pd) ctx) of
                      Inl err \<Rightarrow> []
                    | Inr cs \<Rightarrow> [Synthesizer])"
  by (simp add: fromRetrieval_def Let_def calls_fromSynthesis split: sum.splits)

lemma calls_fromRegistry:
  "calls (fromRegistry env pd ctx)
     = RegistryProbe # (case getRegistryHealth env of
                          Inl err \<Rightarrow> []
                        | Inr h \<Rightarrow> calls (fromRetrieval env pd ctx))"
  by (simp add: fromRegistry_def split: sum.splits)

lemma calls_tryBlock:
  "calls (tryBlock env pd)
     = (if hasImages pd then [AnatomyClassifier] else [])
       @ calls (fromRegistry env pd (snd (identifyAnatomy env pd)))"
  by (simp add: tryBlock_def identifyAnatomy_def calls_append split: sum.splits)

lemma calls_runAnalysis:
  "calls (runAnalysis env pd)
     = (if age pd = [] \<or> (\<not> hasSymptoms pd \<and> \<not> hasImages pd) then []
        else calls (tryBlock env pd))"
  by (simp add: runAnalysis_def)

lemmas calls_run =
  calls_runAnalysis calls_tryBlock calls_fromRegistry calls_fromRetrieval

subsection \<open>Queries handed to the retrieval service\<close>

lemma retrievalQueries_fromSynthesis: "retrievalQueries (fromSynthesis env pd cs) = []"
  by (simp add: fromSynthesis_def retrievalQueries_append split: sum.splits)

lemma retrievalQueries_fromRetrieval:
  "retrievalQueries (fromRetrieval env pd ctx) = [constructQuery (symptoms pd) ctx]"
  by (simp add: fromRetrieval_def Let_def retrievalQueries_fromSynthesis split: sum.splits)

lemma retrievalQueries_fromRegistry:
  "retrievalQueries (fromRegistry env pd ctx)
     = (case getRegistryHealth env of
          Inl err \<Rightarrow> []
        | Inr h \<Rightarrow> [constructQuery (symptoms pd) ctx])"
  by (simp add: fromRegistry_def retrievalQueries_fromRetrieval split: sum.splits)

lemma retrievalQueries_runAnalysis:
  "retrievalQueries (runAnalysis env pd)
     = (if age pd = [] \<or> (\<not> hasSymptoms pd \<and> \<not> hasImages pd) then []
        else retrievalQueries (fromRegistry env pd (snd (identifyAnatomy env pd))))"
  by (simp add: runAnalysis_def tryBlock_def identifyAnatomy_def retrievalQueries_append
        split: sum.splits)

subsection \<open>View, error and result after the run\<close>

lemma verdict_fromSynthesis:
  "verdict (exec (fromSynthesis env pd cs) s)
     = (case analyzePatientCase env pd cs of
          Inl err \<Rightarrow> (Input, Some (errorMessage err), analysisResult s)
        | Inr r \<Rightarrow> (Results, error s, Some r))"
  by (simp add: fromSynthesis_def catchBlock_def addLog_def verdict_def split: sum.splits)

lemma verdict_fromRetrieval:
  "verdict (exec (fromRetrieval env pd ctx) s)
     = (case retrieveSimilarCases env (constructQuery (symptoms pd) ctx) of
          Inl err \<Rightarrow> (Input, Some (errorMessage err), analysisResult s)
        | Inr cs \<Rightarrow> verdict (exec (fromSynthesis env pd cs) s))"
  by (simp add: fromRetrieval_def Let_def addLog_def verdict_fromSynthesis split: sum.splits)
     (simp add: catchBlock_def verdict_def)

lemma verdict_fromRegistry:
  "verdict (exec (fromRegistry env pd ctx) s)
     = (case getRegistryHealth env of
          Inl err \<Rightarrow> (Input, Some (errorMessage err), analysisResult s)
        | Inr h \<Rightarrow> verdict (exec (fromRetrieval env pd ctx) s))"
  by (simp add: fromRegistry_def addLog_def verdict_fromRetrieval verdict_fromSynthesis
        split: sum.splits)
     (simp add: catchBlock_def verdict_def)

lemma verdict_tryBlock:
  "verdict (exec (tryBlock env pd) s)
     = verdict (exec (fromRegistry env pd (snd (identifyAnatomy env pd))) s)"
  by (simp add: tryBlock_def identifyAnatomy_def addLog_def verdict_fromRegistry
        verdict_fromRetrieval verdict_fromSynthesis split: sum.splits)

lemma verdict_run:
  assumes "age (patientData s) \<noteq> []"
    and "hasSymptoms (patientData s) \<or> hasImages (patientData s)"
  shows "verdict (run env s)
     = verdict (exec (tryBlock env (patientData s)) (s\<lparr>appStep := Analyzing, error := None\<rparr>))"
  using assms
  by (auto simp add: run_def runAnalysis_def verdict_tryBlock verdict_fromRegistry
        verdict_fromRetrieval verdict_fromSynthesis split: sum.splits)

lemmas verdict_blocks =
  verdict_tryBlock verdict_fromRegistry verdict_fromRetrieval verdict_fromSynthesis

subsection \<open>Every write keeps the log within capacity\<close>

lemma log_bound_fromSynthesis:
  assumes "e \<in> set (fromSynthesis env pd cs)" and "length (log (processingStage t)) \<le> 4"
  shows "length (log (processingStage (applyEffect e t))) \<le> 4"
  using assms length_slice_last3 [of "log (processingStage t)"]
  by (auto simp: fromSynthesis_def catchBlock_def addLog_def split: sum.splits)

lemma log_bound_fromRetrieval:
  assumes "e \<in> set (fromRetrieval env pd ctx)" and "length (log (processingStage t)) \<le> 4"
  shows "length (log (processingStage (applyEffect e t))) \<le> 4"
  using assms length_slice_last3 [of "log (processingStage t)"]
  by (auto simp: fromRetrieval_def catchBlock_def addLog_def Let_def
        dest: log_bound_fromSynthesis split: sum.splits)

lemma log_bound_fromRegistry:
  assumes "e \<in> set (fromRegistry env pd ctx)" and "length (log (processingStage t)) \<le> 4"
  shows "length (log (processingStage (applyEffect e t))) \<le> 4"
  using assms length_slice_last3 [of "log (processingStage t)"]
  by (auto simp: fromRegistry_def catchBlock_def addLog_def
        dest: log_bound_fromRetrieval split: sum.splits)

lemma runAnalysis_keeps_log_bound:
  assumes "e \<in> set (runAnalysis env pd)" and "length (log (processingStage t)) \<le> 4"
  shows "length (log (processingStage (applyEffect e t))) \<le> 4"
  using assms length_slice_last3 [of "log (processingStage t)"]
  by (auto simp: runAnalysis_def tryBlock_def identifyAnatomy_def addLog_def
        dest: log_bound_fromRegistry split: if_splits sum.splits)

subsection \<open>What a throwing call leaves behind\<close>


lemma calls_single_addLog [simp]: "calls [addLog m] = []"
  by (simp add: addLog_def)

lemma untilCall_addLog [simp]: "untilCall c (addLog m # es) = addLog m # untilCall c es"
  by simp














subsection \<open>Percent sequence and trimming\<close>

lemma progress_marks: "map progress (stageWrites es p) = map snd (marks es p)"
  by (simp add: marks_def comp_def)

lemma step_progress_marks:
  "(\<forall>q \<in> set (stageWrites es p). P (step q) (progress q)) \<longleftrightarrow> (\<forall>(st, pc) \<in> set (marks es p). P st pc)"
  by (auto simp: marks_def)

lemma progress_sorted: "sorted (map progress (stageWrites (runAnalysis env pd) p))"
  by (auto simp: progress_marks marks_run split: sum.splits)

lemma dropWhile_all: "(\<forall>x \<in> set (dropWhile P xs). P x) \<longleftrightarrow> (\<forall>x \<in> set xs. P x)"
  by (induction xs) auto

lemma trim_eq_Nil: "trim s = [] \<longleftrightarrow> (\<forall>c \<in> set s. isWhiteSpace c)"
  by (simp add: trim_def dropWhile_eq_Nil_conv dropWhile_all)

section \<open>Validation\<close>

text \<open>
  Claim C2. A query without an age, or with neither symptoms nor images, is rejected at
  once: the run does nothing but store a validation message. No collaborator is called,
  nothing is written to the progress state, and the view stays where it was.
\<close>

theorem validation_failure:
  assumes "age (patientData s) = []
      \<or> (\<not> hasSymptoms (patientData s) \<and> \<not> hasImages (patientData s))"
  shows "let msg = (if age (patientData s) = [] then js ''Please provide patient age.''
                    else js
                      ''Please provide either clinical symptoms OR upload diagnostic imagery.'')
         in runAnalysis env (patientData s) = [SetError (Some msg)]
          \<and> run env s = s\<lparr>error := Some msg\<rparr>
          \<and> calls (runAnalysis env (patientData s)) = []
          \<and> stageWrites (runAnalysis env (patientData s)) (processingStage s) = []
          \<and> processingStage (run env s) = processingStage s
          \<and> appStep (run env s) = appStep s"
  using assms by (auto simp: run_def runAnalysis_def Let_def)

theorem validation_failure_witness:
  "age (patientData (startWith (queryA\<lparr>age := []\<rparr>))) = []
   \<and> run envLung (startWith (queryA\<lparr>age := []\<rparr>))
       = (startWith (queryA\<lparr>age := []\<rparr>))\<lparr>error := Some (js ''Please provide patient age.'')\<rparr>
   \<and> processingStage (run envLung (startWith (queryA\<lparr>age := []\<rparr>))) = processingStage (initialApp :: (nat, nat) app)
   \<and> \<not> hasSymptoms (patientData (startWith (queryB\<lparr>images := []\<rparr>)))
   \<and> \<not> hasImages (patientData (startWith (queryB\<lparr>images := []\<rparr>)))
   \<and> run envLung (startWith (queryB\<lparr>images := []\<rparr>))
       = (startWith (queryB\<lparr>images := []\<rparr>))\<lparr>error := Some (js
            ''Please provide either clinical symptoms OR upload diagnostic imagery.'')\<rparr>"
proof -
  let ?s = "startWith (queryA\<lparr>age := []\<rparr>)"
  let ?t = "startWith (queryB\<lparr>images := []\<rparr>)"
  have a: "age (patientData ?s) = []" by (simp add: startWith_def)
  have b: "\<not> hasSymptoms (patientData ?t)" "\<not> hasImages (patientData ?t)" "age (patientData ?t) \<noteq> []"
    by (simp_all add: startWith_def queryB_def hasSymptoms_def hasImages_def js_def)
  have p: "processingStage ?s = processingStage (initialApp :: (nat, nat) app)"
    by (simp add: startWith_def)
  show ?thesis
    using validation_failure [of ?s envLung] validation_failure [of ?t envLung] a b p
    by (simp add: Let_def)
qed

text \<open>
  Claim C9. The age is a string and only its presence is checked. Whatever a non-empty age
  holds (zero, a negative number, letters), the age message is not what the run produces:
  the pipeline starts when the query has symptoms or images, and otherwise the query is
  rejected for the lack of both.
\<close>

theorem age_presence_only:
  assumes "age pd \<noteq> []"
  shows "runAnalysis env pd \<noteq> [SetError (Some (js ''Please provide patient age.''))]
    \<and> (hasSymptoms pd \<or> hasImages pd \<longrightarrow>
         take 2 (runAnalysis env pd) = [SetStep Analyzing, SetError None]
         \<and> RegistryProbe \<in> set (calls (runAnalysis env pd)))
    \<and> (\<not> hasSymptoms pd \<and> \<not> hasImages pd \<longrightarrow>
         runAnalysis env pd = [SetError (Some (js
           ''Please provide either clinical symptoms OR upload diagnostic imagery.''))])"
proof (intro conjI impI)
  show "runAnalysis env pd \<noteq> [SetError (Some (js ''Please provide patient age.''))]"
    using assms by (simp add: runAnalysis_def js_def)
  show "take 2 (runAnalysis env pd) = [SetStep Analyzing, SetError None]"
    if "hasSymptoms pd \<or> hasImages pd"
    using that assms by (auto simp: runAnalysis_def)
  show "RegistryProbe \<in> set (calls (runAnalysis env pd))"
    if "hasSymptoms pd \<or> hasImages pd"
    using that assms by (auto simp: calls_run)
  show "runAnalysis env pd = [SetError (Some (js
           ''Please provide either clinical symptoms OR upload diagnostic imagery.''))]"
    if "\<not> hasSymptoms pd \<and> \<not> hasImages pd"
    using that assms by (simp add: runAnalysis_def)
qed

theorem age_presence_only_witness:
  "age (queryA\<lparr>age := js ''0''\<rparr>) \<noteq> [] \<and> age (queryA\<lparr>age := js ''-5''\<rparr>) \<noteq> []
   \<and> age (queryA\<lparr>age := js ''abc''\<rparr>) \<noteq> []
   \<and> hasSymptoms (queryA\<lparr>age := js ''0''\<rparr>)
   \<and> take 2 (runAnalysis envLung (queryA\<lparr>age := js ''0''\<rparr>)) = [SetStep Analyzing, SetError None]
   \<and> take 2 (runAnalysis envLung (queryA\<lparr>age := js ''-5''\<rparr>)) = [SetStep Analyzing, SetError None]
   \<and> take 2 (runAnalysis envLung (queryA\<lparr>age := js ''abc''\<rparr>)) = [SetStep Analyzing, SetError None]
   \<and> RegistryProbe \<in> set (calls (runAnalysis envLung (queryA\<lparr>age := js ''-5''\<rparr>)))"
proof -
  have a: "age (queryA\<lparr>age := js ''0''\<rparr>) \<noteq> []" "age (queryA\<lparr>age := js ''-5''\<rparr>) \<noteq> []"
    "age (queryA\<lparr>age := js ''abc''\<rparr>) \<noteq> []"
    by (simp_all add: js_def)
  have h: "hasSymptoms (queryA\<lparr>age := x\<rparr>)" for x
    by (simp add: scenario_defs)
  show ?thesis
    using age_presence_only [OF a(1), of envLung] age_presence_only [OF a(2), of envLung]
      age_presence_only [OF a(3), of envLung] a h
    by simp
qed

text \<open>
  Claim C10. Symptoms made of white space only count as absent. Validation rejects such a
  query unless it carries an image; and when the run proceeds without an anatomy label,
  the query handed to the retrieval service is the default phrase. Both checks trim.
\<close>

theorem whitespace_symptoms:
  assumes "\<forall>c \<in> set (symptoms pd). isWhiteSpace c"
  shows "\<not> hasSymptoms pd
    \<and> (age pd \<noteq> [] \<and> \<not> hasImages pd \<longrightarrow>
         runAnalysis env pd = [SetError (Some (js
           ''Please provide either clinical symptoms OR upload diagnostic imagery.''))])
    \<and> constructQuery (symptoms pd) [] = js ''visual anomaly suspected malignancy''
    \<and> (\<forall>h. age pd \<noteq> [] \<and> hasImages pd \<and> snd (identifyAnatomy env pd) = []
           \<and> getRegistryHealth env = Inr h \<longrightarrow>
         retrievalQueries (runAnalysis env pd) = [js ''visual anomaly suspected malignancy''])"
proof -
  from assms have t: "trim (symptoms pd) = []"
    by (simp add: trim_eq_Nil)
  then have hs: "\<not> hasSymptoms pd"
    by (simp add: hasSymptoms_def)
  have q: "constructQuery (symptoms pd) [] = js ''visual anomaly suspected malignancy''"
    using t by (simp add: constructQuery_def)
  have rejected: "runAnalysis env pd = [SetError (Some (js
           ''Please provide either clinical symptoms OR upload diagnostic imagery.''))]"
    if "age pd \<noteq> []" "\<not> hasImages pd"
    using that hs by (simp add: runAnalysis_def)
  have replaced: "retrievalQueries (runAnalysis env pd)
      = [js ''visual anomaly suspected malignancy'']"
    if "age pd \<noteq> []" "hasImages pd" "snd (identifyAnatomy env pd) = []"
      "getRegistryHealth env = Inr h" for h
    using that q by (simp add: retrievalQueries_runAnalysis retrievalQueries_fromRegistry)
  show ?thesis
    using hs q rejected replaced by blast
qed

theorem whitespace_symptoms_witness:
  "list_all isWhiteSpace [0x20, 0x9, 0x3000, 0xA]
   \<and> \<not> hasSymptoms (queryB\<lparr>symptoms := [0x20, 0x9, 0x3000, 0xA]\<rparr>)
   \<and> runAnalysis envLung (queryB\<lparr>symptoms := [0x20, 0x9, 0x3000, 0xA], images := []\<rparr>)
       = [SetError (Some (js
           ''Please provide either clinical symptoms OR upload diagnostic imagery.''))]
   \<and> snd (identifyAnatomy envClassifierFails (queryB\<lparr>symptoms := [0x20, 0x9, 0x3000, 0xA]\<rparr>)) = []
   \<and> retrievalQueries (runAnalysis envClassifierFails (queryB\<lparr>symptoms := [0x20, 0x9, 0x3000, 0xA]\<rparr>))
       = [js ''visual anomaly suspected malignancy'']"
proof -
  let ?w = "[0x20, 0x9, 0x3000, 0xA] :: jsstring"
  have w: "list_all isWhiteSpace ?w"
    by (simp add: isWhiteSpace_def)
  then have w1: "\<forall>c \<in> set (symptoms (queryB\<lparr>symptoms := ?w\<rparr>)). isWhiteSpace c"
    and w2: "\<forall>c \<in> set (symptoms (queryB\<lparr>symptoms := ?w, images := []\<rparr>)). isWhiteSpace c"
    by (simp_all add: list_all_iff)
  have f: "age (queryB\<lparr>symptoms := ?w\<rparr>) \<noteq> []" "hasImages (queryB\<lparr>symptoms := ?w\<rparr>)"
    "age (queryB\<lparr>symptoms := ?w, images := []\<rparr>) \<noteq> []"
    "\<not> hasImages (queryB\<lparr>symptoms := ?w, images := []\<rparr>)"
    "snd (identifyAnatomy envClassifierFails (queryB\<lparr>symptoms := ?w\<rparr>)) = []"
    "getRegistryHealth envClassifierFails = Inr [12]"
    by (simp_all add: queryB_def hasImages_def js_def identifyAnatomy_def envClassifierFails_def
          envLung_def)
  show ?thesis
    using whitespace_symptoms [OF w1, of envClassifierFails] whitespace_symptoms [OF w2, of envLung]
      w f
    by simp
qed

section \<open>Outcome of a run\<close>

text \<open>
  Claim C1. A run on a query that passes validation ends in exactly one of two ways: on
  the results view with an analysis result and no error (Done), or back on the input form
  with an error message and without having stored a result (Failed). The collaborators
  are taken to settle, by returning or by throwing.
\<close>

theorem run_outcome:
  assumes "age (patientData s) \<noteq> []"
    and "hasSymptoms (patientData s) \<or> hasImages (patientData s)"
  shows "let s' = run env s;
             finished = (appStep s' = Results \<and> (\<exists>r. analysisResult s' = Some r)
                         \<and> error s' = None);
             failed = (appStep s' = Input \<and> (\<exists>m. error s' = Some m)
                       \<and> analysisResult s' = analysisResult s)
         in (finished \<or> failed) \<and> \<not> (finished \<and> failed)"
proof -
  have "(appStep (run env s), error (run env s), analysisResult (run env s))
      = verdict (exec (tryBlock env (patientData s)) (s\<lparr>appStep := Analyzing, error := None\<rparr>))"
    using verdict_run [OF assms, of env] by (simp add: verdict_def)
  then show ?thesis
    by (auto simp: Let_def verdict_blocks split: sum.splits)
qed

theorem run_outcome_witness:
  "age (patientData (startWith queryA)) \<noteq> []
   \<and> hasSymptoms (patientData (startWith queryA))
   \<and> appStep (run envLung (startWith queryA)) = Results
   \<and> analysisResult (run envLung (startWith queryA)) = Some 7
   \<and> error (run envLung (startWith queryA)) = None
   \<and> appStep (run envRegistryDown (startWith queryA)) = Input
   \<and> error (run envRegistryDown (startWith queryA)) = Some (js ''registry unavailable'')
   \<and> analysisResult (run envRegistryDown (startWith queryA)) = None"
proof -
  let ?s = "startWith queryA"
  have v: "age (patientData ?s) \<noteq> []" "hasSymptoms (patientData ?s)"
    by (simp_all add: scenario_defs)
  have ok: "appStep (run envLung ?s) = Results" "analysisResult (run envLung ?s) = Some 7"
    by (simp_all add: controller_defs scenario_defs)
  have ko: "appStep (run envRegistryDown ?s) = Input"
    "error (run envRegistryDown ?s) = Some (js ''registry unavailable'')"
    by (simp_all add: controller_defs scenario_defs)
  have r0: "analysisResult ?s = None"
    by (simp add: scenario_defs)
  show ?thesis
    using run_outcome [of ?s envLung] run_outcome [of ?s envRegistryDown] v ok ko r0
    by (simp add: Let_def)
qed

text \<open>
  Claim C3. When the anatomy classifier throws, the run goes on: the failure is written to
  the console, the anatomy context stays empty, the registry probe is the next call and
  the next stage written is Registry; when the later stages succeed the result is shown,
  and the retrieval query carries no anatomy tag. The later stages are different: if the
  registry probe, the retrieval or the synthesis throws, the run ends on the input form with
  an error and no result, whatever the classifier did.
\<close>

theorem classifier_failure:
  assumes "age (patientData s) \<noteq> []"
    and "hasSymptoms (patientData s) \<or> hasImages (patientData s)"
  shows "let pd = patientData s;
             s' = run env s;
             anatomyContext = snd (identifyAnatomy env pd);
             query = constructQuery (symptoms pd) anatomyContext
         in (\<forall>e. hasImages pd \<and> identifyAnatomyFromImage env (images pd ! 0) = Inl e \<longrightarrow>
               ConsoleError (js ''Could not identify anatomy'') e \<in> set (runAnalysis env pd)
               \<and> anatomyContext = []
               \<and> take 2 (calls (runAnalysis env pd)) = [AnatomyClassifier, RegistryProbe]
               \<and> take 4 (marks (runAnalysis env pd) (processingStage s))
                   = [(Vision, 5), (Vision, 15), (Vision, 15), (Registry, 45)]
               \<and> (\<forall>h cs r. getRegistryHealth env = Inr h \<and> retrieveSimilarCases env query = Inr cs
                      \<and> analyzePatientCase env pd cs = Inr r \<longrightarrow>
                    appStep s' = Results \<and> analysisResult s' = Some r \<and> error s' = None
                    \<and> retrievalQueries (runAnalysis env pd) = [constructQuery (symptoms pd) []]))
          \<and> ((\<exists>err. getRegistryHealth env = Inl err)
              \<or> (\<exists>err. retrieveSimilarCases env query = Inl err)
              \<or> (\<exists>cs err. retrieveSimilarCases env query = Inr cs
                    \<and> analyzePatientCase env pd cs = Inl err) \<longrightarrow>
               appStep s' = Input \<and> (\<exists>m. error s' = Some m)
               \<and> analysisResult s' = analysisResult s)"
proof -
  let ?pd = "patientData s"
  let ?s' = "run env s"
  let ?es = "runAnalysis env ?pd"
  let ?ctx = "snd (identifyAnatomy env ?pd)"
  let ?query = "constructQuery (symptoms ?pd) ?ctx"
  have v: "(appStep ?s', error ?s', analysisResult ?s')
      = verdict (exec (tryBlock env ?pd) (s\<lparr>appStep := Analyzing, error := None\<rparr>))"
    using verdict_run [OF assms, of env] by (simp add: verdict_def)
  have finished: "appStep ?s' = Results \<and> analysisResult ?s' = Some r \<and> error ?s' = None
      \<and> retrievalQueries ?es = [?query]"
    if "getRegistryHealth env = Inr h" "retrieveSimilarCases env ?query = Inr cs"
      "analyzePatientCase env ?pd cs = Inr r" for h cs r
    using that assms v
    by (auto simp: verdict_blocks retrievalQueries_runAnalysis retrievalQueries_fromRegistry)
  have vision: "ConsoleError (js ''Could not identify anatomy'') e \<in> set ?es \<and> ?ctx = []
      \<and> take 2 (calls ?es) = [AnatomyClassifier, RegistryProbe]
      \<and> take 4 (marks ?es (processingStage s))
          = [(Vision, 5), (Vision, 15), (Vision, 15), (Registry, 45)]
      \<and> (\<forall>h cs r. getRegistryHealth env = Inr h \<and> retrieveSimilarCases env ?query = Inr cs
             \<and> analyzePatientCase env ?pd cs = Inr r \<longrightarrow>
           appStep ?s' = Results \<and> analysisResult ?s' = Some r \<and> error ?s' = None
           \<and> retrievalQueries ?es = [constructQuery (symptoms ?pd) []])"
    if "hasImages ?pd" "identifyAnatomyFromImage env (images ?pd ! 0) = Inl e" for e
  proof (intro conjI)
    show "ConsoleError (js ''Could not identify anatomy'') e \<in> set ?es"
      using that assms(1) by (simp add: runAnalysis_def tryBlock_def identifyAnatomy_def)
    show ctx: "?ctx = []"
      using that by (simp add: identifyAnatomy_def)
    show "take 2 (calls ?es) = [AnatomyClassifier, RegistryProbe]"
      using that assms(1) by (simp add: calls_run)
    show "take 4 (marks ?es (processingStage s))
          = [(Vision, 5), (Vision, 15), (Vision, 15), (Registry, 45)]"
      using that assms(1) by (simp add: marks_run)
    show "\<forall>h cs r. getRegistryHealth env = Inr h \<and> retrieveSimilarCases env ?query = Inr cs
             \<and> analyzePatientCase env ?pd cs = Inr r \<longrightarrow>
           appStep ?s' = Results \<and> analysisResult ?s' = Some r \<and> error ?s' = None
           \<and> retrievalQueries ?es = [constructQuery (symptoms ?pd) []]"
      using finished unfolding ctx by blast
  qed
  have aborted: "appStep ?s' = Input \<and> (\<exists>m. error ?s' = Some m)
      \<and> analysisResult ?s' = analysisResult s"
    if "(\<exists>err. getRegistryHealth env = Inl err)
        \<or> (\<exists>err. retrieveSimilarCases env ?query = Inl err)
        \<or> (\<exists>cs err. retrieveSimilarCases env ?query = Inr cs
              \<and> analyzePatientCase env ?pd cs = Inl err)"
    using that v
    by (auto simp: verdict_blocks split: sum.splits)
  show ?thesis
    unfolding Let_def using vision aborted by blast
qed

theorem classifier_failure_witness:
  "age (patientData (startWith queryB)) \<noteq> []
   \<and> hasImages (patientData (startWith queryB))
   \<and> identifyAnatomyFromImage envClassifierFails (images queryB ! 0)
       = Inl (ErrorObject (js ''classification failed''))
   \<and> ConsoleError (js ''Could not identify anatomy'') (ErrorObject (js ''classification failed''))
       \<in> set (runAnalysis envClassifierFails queryB)
   \<and> take 2 (calls (runAnalysis envClassifierFails queryB)) = [AnatomyClassifier, RegistryProbe]
   \<and> verdict (run envClassifierFails (startWith queryB)) = (Results, None, Some 7)
   \<and> retrievalQueries (runAnalysis envClassifierFails queryB)
       = [js ''visual anomaly suspected malignancy'']
   \<and> getRegistryHealth envRegistryDown = Inl (ErrorObject (js ''registry unavailable''))
   \<and> appStep (run envRegistryDown (startWith queryB)) = Input
   \<and> error (run envRegistryDown (startWith queryB)) = Some (js ''registry unavailable'')"
proof -
  let ?s = "startWith queryB"
  have v: "age (patientData ?s) \<noteq> []" "hasImages (patientData ?s)" "patientData ?s = queryB"
    "analysisResult ?s = None"
    by (simp_all add: scenario_defs)
  have c: "identifyAnatomyFromImage envClassifierFails (images queryB ! 0)
       = Inl (ErrorObject (js ''classification failed''))"
    "getRegistryHealth envClassifierFails = Inr [12]"
    "retrieveSimilarCases envClassifierFails
       (constructQuery (symptoms queryB) (snd (identifyAnatomy envClassifierFails queryB)))
       = Inr [1, 2, 3]"
    "analyzePatientCase envClassifierFails queryB [1, 2, 3] = Inr 7"
    "getRegistryHealth envRegistryDown = Inl (ErrorObject (js ''registry unavailable''))"
    by (simp_all add: envClassifierFails_def envRegistryDown_def envLung_def)
  have q: "constructQuery (symptoms queryB) [] = js ''visual anomaly suspected malignancy''"
    by (simp add: constructQuery_def queryB_def trim_def js_def)
  have e: "error (run envRegistryDown ?s) = Some (js ''registry unavailable'')"
    by (simp add: controller_defs scenario_defs)
  show ?thesis
    using classifier_failure [of ?s envClassifierFails] classifier_failure [of ?s envRegistryDown]
      v c q e
    by (simp add: Let_def verdict_def)
qed



section \<open>The retrieval query\<close>

text \<open>
  Claim C5, as stated, asks for the default phrase whenever the symptoms are empty. With
  an image classified as Lung and empty symptoms, the query handed to the retrieval
  service is the bare tag: it is shorter than the default phrase, so the phrase is not
  part of it.
\<close>

theorem retrieval_query_counterexample:
  "symptoms queryB = []
   \<and> snd (identifyAnatomy envLung queryB) = js ''Lung''
   \<and> retrievalQueries (runAnalysis envLung queryB) = [js ''[PATIENT IMAGING ANATOMY: Lung] '']
   \<and> js ''[PATIENT IMAGING ANATOMY: Lung] '' \<noteq> js ''visual anomaly suspected malignancy''
   \<and> js ''[PATIENT IMAGING ANATOMY: Lung] ''
       \<noteq> js ''[PATIENT IMAGING ANATOMY: Lung] visual anomaly suspected malignancy''
   \<and> length (js ''[PATIENT IMAGING ANATOMY: Lung] '')
       < length (js ''visual anomaly suspected malignancy'')"
  by (simp add: retrievalQueries_runAnalysis retrievalQueries_fromRegistry identifyAnatomy_def
        scenario_defs)

text \<open>
  Claim C5, amended. The anatomy context is the label returned by the classifier, and is
  empty when there is no image or the classifier throws. With a non-empty context the
  query is the tag followed by the symptoms as entered, even when they are empty. Only
  without a context are blank symptoms (empty after trimming) replaced by the default
  phrase; otherwise the query is the symptoms unchanged. A run that gets past the registry
  probe hands exactly this query to the retrieval service.
\<close>

theorem retrieval_query:
  "let anatomyContext = snd (identifyAnatomy env pd);
       query = constructQuery (symptoms pd) anatomyContext
   in (\<forall>l. hasImages pd \<and> identifyAnatomyFromImage env (images pd ! 0) = Inr l \<longrightarrow>
         anatomyContext = l)
    \<and> (\<not> hasImages pd \<or> (\<exists>e. identifyAnatomyFromImage env (images pd ! 0) = Inl e) \<longrightarrow>
         anatomyContext = [])
    \<and> (anatomyContext \<noteq> [] \<longrightarrow>
         query = js ''[PATIENT IMAGING ANATOMY: '' @ anatomyContext @ js ''] '' @ symptoms pd)
    \<and> (anatomyContext = [] \<and> trim (symptoms pd) = [] \<longrightarrow>
         query = js ''visual anomaly suspected malignancy'')
    \<and> (anatomyContext = [] \<and> trim (symptoms pd) \<noteq> [] \<longrightarrow> query = symptoms pd)
    \<and> (\<forall>h. age pd \<noteq> [] \<and> (hasSymptoms pd \<or> hasImages pd) \<and> getRegistryHealth env = Inr h \<longrightarrow>
         retrievalQueries (runAnalysis env pd) = [query])"
  by (auto simp: Let_def identifyAnatomy_def constructQuery_def retrievalQueries_runAnalysis
        retrievalQueries_fromRegistry split: sum.splits)

theorem retrieval_query_witness:
  "hasImages queryB
   \<and> identifyAnatomyFromImage envLung (images queryB ! 0) = Inr (js ''Lung'')
   \<and> age queryB \<noteq> []
   \<and> getRegistryHealth envLung = Inr [12]
   \<and> retrievalQueries (runAnalysis envLung queryB)
       = [js ''[PATIENT IMAGING ANATOMY: '' @ js ''Lung'' @ js ''] '' @ symptoms queryB]
   \<and> identifyAnatomyFromImage envClassifierFails (images queryB ! 0)
       = Inl (ErrorObject (js ''classification failed''))
   \<and> trim (symptoms queryB) = []
   \<and> retrievalQueries (runAnalysis envClassifierFails queryB)
       = [js ''visual anomaly suspected malignancy'']
   \<and> \<not> hasImages queryA
   \<and> hasSymptoms queryA
   \<and> trim (symptoms queryA) \<noteq> []
   \<and> retrievalQueries (runAnalysis envLung queryA) = [js ''irregular mole'']"
proof -
  have b: "hasImages queryB" "age queryB \<noteq> []" "trim (symptoms queryB) = []"
    "symptoms queryB = []"
    by (simp_all add: scenario_defs)
  have a: "\<not> hasImages queryA" "hasSymptoms queryA" "trim (symptoms queryA) \<noteq> []"
    "age queryA \<noteq> []" "symptoms queryA = js ''irregular mole''"
    by (simp_all add: scenario_defs)
  have c: "identifyAnatomyFromImage envLung (images queryB ! 0) = Inr (js ''Lung'')"
    "getRegistryHealth envLung = Inr [12]"
    "identifyAnatomyFromImage envClassifierFails (images queryB ! 0)
       = Inl (ErrorObject (js ''classification failed''))"
    "getRegistryHealth envClassifierFails = Inr [12]"
    "js ''Lung'' \<noteq> []"
    by (simp_all add: envClassifierFails_def envLung_def js_def)
  show ?thesis
    using retrieval_query [of envLung queryB] retrieval_query [of envClassifierFails queryB]
      retrieval_query [of envLung queryA] a b c
    by (auto simp: Let_def)
qed

section \<open>Progress\<close>

text \<open>
  Claim C6. The percents written during one run never decrease; the last one is 100 only
  when the run ends on the results view with a result; and no write after the first of a
  run is 0, so that percent can drop only where a new run starts. The first write of a
  run, the one that replaces what an earlier run left, is 5.
\<close>

theorem progress_monotone:
  "let ws = map progress (stageWrites (runAnalysis env (patientData s)) (processingStage s))
   in sorted ws
    \<and> (ws \<noteq> [] \<and> last ws = 100 \<longrightarrow>
         appStep (run env s) = Results \<and> (\<exists>r. analysisResult (run env s) = Some r)
         \<and> error (run env s) = None)
    \<and> 0 \<notin> set (tl ws)
    \<and> (ws \<noteq> [] \<longrightarrow> hd ws = 5)"
proof -
  let ?pd = "patientData s"
  let ?ws = "map progress (stageWrites (runAnalysis env ?pd) (processingStage s))"
  have a: "sorted ?ws"
    by (rule progress_sorted)
  have b: "appStep (run env s) = Results \<and> (\<exists>r. analysisResult (run env s) = Some r)
         \<and> error (run env s) = None" if "?ws \<noteq> []" and "last ?ws = 100"
  proof -
    from that(1) have valid: "age ?pd \<noteq> []" "hasSymptoms ?pd \<or> hasImages ?pd"
      by (auto simp: progress_marks marks_runAnalysis split: if_splits)
    have "(appStep (run env s), error (run env s), analysisResult (run env s))
        = verdict (exec (tryBlock env ?pd) (s\<lparr>appStep := Analyzing, error := None\<rparr>))"
      using verdict_run [OF valid, of env] by (simp add: verdict_def)
    with that(2) valid show ?thesis
      by (auto simp: progress_marks marks_run verdict_blocks split: sum.splits if_splits)
  qed
  have c: "0 \<notin> set (tl ?ws)"
    by (auto simp: progress_marks marks_run split: sum.splits)
  have d: "hd ?ws = 5" if "?ws \<noteq> []"
    using that by (auto simp: progress_marks marks_runAnalysis split: if_splits)
  from a b c d show ?thesis
    by (simp add: Let_def)
qed

theorem progress_monotone_witness:
  "map progress (stageWrites (runAnalysis envLung (patientData (startWith queryA)))
                   (processingStage (startWith queryA)))
     = [5, 30, 30, 45, 45, 45, 60, 60, 75, 75, 85, 85, 100, 100]
   \<and> appStep (run envLung (startWith queryA)) = Results
   \<and> analysisResult (run envLung (startWith queryA)) = Some 7
   \<and> error (run envLung (startWith queryA)) = None"
proof -
  let ?s = "startWith queryA"
  have ws: "map progress (stageWrites (runAnalysis envLung (patientData ?s)) (processingStage ?s))
      = [5, 30, 30, 45, 45, 45, 60, 60, 75, 75, 85, 85, 100, 100]"
    by (simp add: progress_marks marks_run scenario_defs)
  have r: "analysisResult (run envLung ?s) = Some 7"
    by (simp add: controller_defs scenario_defs)
  show ?thesis
    using progress_monotone [of envLung ?s] ws r
    by (simp add: Let_def)
qed

text \<open>
  Claim C7. Every value written to the progress state respects the bound of its stage:
  at most 30 in Vision, 45 in Registry, 75 in Retrieval and 100 in Synthesis. The percents
  are constants of the controller, so whatever the collaborators return or throw, the
  sequence written never decreases.
\<close>

theorem stage_progress_bounds:
  "(\<forall>q \<in> set (stageWrites (runAnalysis env pd) p).
      progress q \<le> (case step q of Vision \<Rightarrow> 30 | Registry \<Rightarrow> 45 | Retrieval \<Rightarrow> 75
                      | Synthesis \<Rightarrow> 100))
   \<and> sorted (map progress (stageWrites (runAnalysis env pd) p))"
proof
  show "\<forall>q \<in> set (stageWrites (runAnalysis env pd) p).
      progress q \<le> (case step q of Vision \<Rightarrow> 30 | Registry \<Rightarrow> 45 | Retrieval \<Rightarrow> 75
                      | Synthesis \<Rightarrow> 100)"
    unfolding step_progress_marks [where P = "\<lambda>st pc. pc \<le> (case st of Vision \<Rightarrow> 30 | Registry \<Rightarrow> 45 | Retrieval \<Rightarrow> 75
                      | Synthesis \<Rightarrow> 100)"]
    by (auto simp: marks_run split: sum.splits)
  show "sorted (map progress (stageWrites (runAnalysis env pd) p))"
    by (rule progress_sorted)
qed

theorem stage_progress_bounds_witness:
  "marks (runAnalysis envClassifierFails queryB) (processingStage (startWith queryB))
     = [(Vision, 5), (Vision, 15), (Vision, 15), (Registry, 45), (Registry, 45), (Registry, 45),
        (Retrieval, 60), (Retrieval, 60), (Retrieval, 75), (Retrieval, 75),
        (Synthesis, 85), (Synthesis, 85), (Synthesis, 100), (Synthesis, 100)]
   \<and> list_all (\<lambda>q. progress q \<le> (case step q of Vision \<Rightarrow> 30 | Registry \<Rightarrow> 45
                                   | Retrieval \<Rightarrow> 75 | Synthesis \<Rightarrow> 100))
        (stageWrites (runAnalysis envClassifierFails queryB) (processingStage (startWith queryB)))"
proof -
  have m: "marks (runAnalysis envClassifierFails queryB) (processingStage (startWith queryB))
     = [(Vision, 5), (Vision, 15), (Vision, 15), (Registry, 45), (Registry, 45), (Registry, 45),
        (Retrieval, 60), (Retrieval, 60), (Retrieval, 75), (Retrieval, 75),
        (Synthesis, 85), (Synthesis, 85), (Synthesis, 100), (Synthesis, 100)]"
    by (simp add: marks_run scenario_defs identifyAnatomy_def)
  show ?thesis
    using stage_progress_bounds [of envClassifierFails queryB "processingStage (startWith queryB)"] m
    by (simp add: list_all_iff)
qed

section \<open>The log of the progress state\<close>

text \<open>
  Claim C8. The log never holds more than four entries: from a state whose log is within
  capacity, every state observable during a run has at most four log entries. An append
  always leaves at most four entries; below capacity it adds the message at the end, and
  at capacity it drops the oldest entry and keeps the others in order before the new one.
\<close>

theorem log_capacity:
  fixes env :: "('h, 'c, 'r) env" and s :: "('h, 'r) app"
  shows "(length (log (processingStage s)) \<le> 4 \<longrightarrow>
      (\<forall>s' \<in> set (observations (runAnalysis env (patientData s)) s).
         length (log (processingStage s')) \<le> 4))
   \<and> length (log (processingStage (applyEffect (addLog msg :: ('h, 'c, 'r) effect) s))) \<le> 4
   \<and> (length (log (processingStage s)) < 4 \<longrightarrow>
        log (processingStage (applyEffect (addLog msg :: ('h, 'c, 'r) effect) s))
          = log (processingStage s) @ [msg])
   \<and> (length (log (processingStage s)) = 4 \<longrightarrow>
        log (processingStage (applyEffect (addLog msg :: ('h, 'c, 'r) effect) s))
          = tl (log (processingStage s)) @ [msg])"
proof (intro conjI impI)
  assume "length (log (processingStage s)) \<le> 4"
  then show "\<forall>s' \<in> set (observations (runAnalysis env (patientData s)) s).
         length (log (processingStage s')) \<le> 4"
    by (intro observations_invariant [where P = "\<lambda>p. length (log p) \<le> 4"])
       (auto dest: runAnalysis_keeps_log_bound)
next
  show "length (log (processingStage (applyEffect (addLog msg :: ('h, 'c, 'r) effect) s))) \<le> 4"
    using length_slice_last3 [of "log (processingStage s)"] by (simp add: addLog_def)
next
  assume "length (log (processingStage s)) < 4"
  then show "log (processingStage (applyEffect (addLog msg :: ('h, 'c, 'r) effect) s))
      = log (processingStage s) @ [msg]"
    by (simp add: addLog_def slice_last3_within)
next
  assume "length (log (processingStage s)) = 4"
  then show "log (processingStage (applyEffect (addLog msg :: ('h, 'c, 'r) effect) s))
      = tl (log (processingStage s)) @ [msg]"
    by (simp add: addLog_def slice_last3_full)
qed

theorem log_capacity_witness:
  "length (log (processingStage (startWith queryA))) \<le> 4
   \<and> length (log (processingStage (run envLung (startWith queryA)))) \<le> 4
   \<and> length (log (processingStage (startWith queryA))) < 4
   \<and> log (processingStage
          (applyEffect (addLog (js ''m'') :: (nat, nat, nat) effect) (startWith queryA)))
       = [js ''m'']
   \<and> length (log (processingStage (run envLung (startWith queryA)))) = 4
   \<and> log (processingStage
          (applyEffect (addLog (js ''m'') :: (nat, nat, nat) effect)
             (run envLung (startWith queryA))))
       = tl (log (processingStage (run envLung (startWith queryA)))) @ [js ''m'']"
proof -
  let ?s = "startWith queryA"
  let ?t = "run envLung ?s"
  have h0: "length (log (processingStage ?s)) \<le> 4" "length (log (processingStage ?s)) < 4"
    "log (processingStage ?s) = []"
    by (simp_all add: startWith_def initialApp_def)
  have obs: "?t \<in> set (observations (runAnalysis envLung (patientData ?s)) ?s)"
    unfolding run_def by (rule exec_in_observations)
  have h4: "length (log (processingStage ?t)) = 4"
    by (simp add: controller_defs scenario_defs slice_def)
  show ?thesis
    using log_capacity [of ?s envLung "js ''m''"] log_capacity [of ?t envLung "js ''m''"]
      h0 obs h4
    by simp
qed

end
